theory Spec2Isabelle
  imports Main "HOL-Library.Word"
begin

unbundle bit_operations_syntax

section \<open>Machine types and status codes\<close>

text \<open>
  \<^verbatim>\<open>__int64\<close> and \<^verbatim>\<open>LONGLONG\<close> are 64-bit two's complement values, \<^verbatim>\<open>long\<close>,
  \<^verbatim>\<open>HRESULT\<close>, \<^verbatim>\<open>ULONG\<close> and \<^verbatim>\<open>DWORD\<close> are 32 bits wide. Arithmetic wraps, and the
  comparisons of the signed types are the signed ones (\<open>\<le>s\<close>, \<open><s\<close>).
\<close>

type_synonym int64 = "64 word"
type_synonym long = "32 word"
type_synonym HRESULT = "32 word"
type_synonym DWORD = "32 word"
type_synonym ULONG = "32 word"

text \<open>The \<^verbatim>\<open>HRESULT\<close> values of the platform headers that the stream returns.\<close>

definition S_OK :: HRESULT where
  "S_OK = 0"

definition S_FALSE :: HRESULT where
  "S_FALSE = 1"

definition E_INVALIDARG :: HRESULT where
  "E_INVALIDARG = 0x80070057"

definition VFW_E_BUFFER_UNDERFLOW :: HRESULT where
  "VFW_E_BUFFER_UNDERFLOW = 0x8004020D"

text \<open>\<^verbatim>\<open>return 2;  //throw away this sample\<close>: the status of a sample that the sink skipped.\<close>

definition SkippedSample :: HRESULT where
  "SkippedSample = 2"

definition SUCCEEDED :: "HRESULT \<Rightarrow> bool" where
  "SUCCEEDED hr = (0 \<le>s hr)"

text \<open>
  Modelled from the spec: the parser's status "not enough data loaded" (\<^verbatim>\<open>E_BUFFER_NOT_FULL\<close>
  of the parser's header, which is not among the sources). It is a negative \<^verbatim>\<open>long\<close>;
  the parser library defines it as \<open>-3\<close>.
\<close>

definition E_BUFFER_NOT_FULL :: long where
  "E_BUFFER_NOT_FULL = - 3"

text \<open>The positioning bits of the seeking flags (\<^verbatim>\<open>AM_SEEKING_*\<close> of the platform headers).\<close>

definition AM_SEEKING_NoPositioning :: DWORD where
  "AM_SEEKING_NoPositioning = 0"

definition AM_SEEKING_AbsolutePositioning :: DWORD where
  "AM_SEEKING_AbsolutePositioning = 1"

definition AM_SEEKING_RelativePositioning :: DWORD where
  "AM_SEEKING_RelativePositioning = 2"

definition AM_SEEKING_IncrementalPositioning :: DWORD where
  "AM_SEEKING_IncrementalPositioning = 3"

definition AM_SEEKING_PositioningBitsMask :: DWORD where
  "AM_SEEKING_PositioningBitsMask = 3"

section \<open>The container, as the stream sees it\<close>

text \<open>
  Objects of the parser are referred to by address; a pointer is an optional address and
  \<open>None\<close> is the null pointer. Comparing two pointers compares addresses.
\<close>

datatype cluster = Cluster nat
datatype block_entry = BlockEntry nat
datatype block = Block nat
datatype cue_point = CuePoint nat
datatype track_position = TrackPosition nat
datatype media_sample = MediaSample nat

type_synonym cluster_ptr = "cluster option"
type_synonym block_entry_ptr = "block_entry option"
type_synonym block_ptr = "block option"
type_synonym media_sample_ptr = "media_sample option"

text \<open>
  Modelled from the spec: the cue index (class \<^verbatim>\<open>Cues\<close> of the parser, whose code is not
  among the sources). \<open>Cues_Find\<close> is \<^verbatim>\<open>Find(time_ns, pTrack, pCP, pTP)\<close> for the stream's
  track: \<open>None\<close> when it returns false, the two out-parameters otherwise.
\<close>

record Cues =
  Cues_Find :: "int64 \<Rightarrow> (cue_point \<times> track_position) option"
  Cues_GetBlock :: "cue_point \<Rightarrow> track_position \<Rightarrow> block_entry_ptr"

text \<open>
  Modelled from the spec: the segment, its clusters, block entries and blocks (classes
  \<^verbatim>\<open>Segment\<close>, \<^verbatim>\<open>Cluster\<close>, \<^verbatim>\<open>BlockEntry\<close> and \<^verbatim>\<open>Block\<close> of the parser, whose code is
  not among the sources). Every method the stream calls is a field; the methods that take
  the track (\<^verbatim>\<open>Segment::Seek\<close>, \<^verbatim>\<open>Cluster::GetEntry\<close>) are the ones of the stream's track.
  Nothing is assumed about what they return.
\<close>

record Segment =
  Segment_GetDuration :: int64
  Segment_GetCount :: ULONG
  Segment_Unparsed :: int64
  Segment_m_eos :: cluster
  Segment_GetFirst :: cluster_ptr
  Segment_GetNext :: "cluster \<Rightarrow> cluster_ptr"
  Segment_FindCluster :: "int64 \<Rightarrow> cluster_ptr"
  Segment_Seek :: "int64 \<Rightarrow> block_entry_ptr"
  Segment_GetCues :: "Cues option"
  Cluster_EOS :: "cluster \<Rightarrow> bool"
  Cluster_GetTime :: "cluster \<Rightarrow> int64"
  Cluster_GetEntry :: "cluster \<Rightarrow> block_entry_ptr"
  BlockEntry_EOS :: "block_entry \<Rightarrow> bool"
  BlockEntry_GetBlock :: "block_entry \<Rightarrow> block_ptr"
  BlockEntry_GetCluster :: "block_entry \<Rightarrow> cluster_ptr"
  Block_GetTime :: "block \<Rightarrow> cluster_ptr \<Rightarrow> int64"

text \<open>
  Modelled from the spec: the track (class \<^verbatim>\<open>Track\<close> of the parser, whose code is not among
  the sources). \<open>Track_GetFirst\<close> and \<open>Track_GetNext\<close> return the status together with the
  value their reference parameter holds on return.
\<close>

record Track =
  m_pSegment :: Segment
  Track_GetEOS :: block_entry
  Track_GetFirst :: "long \<times> block_entry_ptr"
  Track_GetNext :: "block_entry \<Rightarrow> long \<times> block_entry_ptr"

section \<open>The stream\<close>

text \<open>
  The four mutable members of \<^verbatim>\<open>Stream\<close>. The member \<^verbatim>\<open>m_pTrack\<close> is constant; the track it
  points to is an argument of every operation, because the container behind it grows
  between calls.
\<close>

record Stream =
  m_bDiscontinuity :: bool
  m_pCurr :: block_entry_ptr
  m_pStop :: block_entry_ptr
  m_pBase :: cluster_ptr

text \<open>
  The virtual functions a derived stream supplies. They read the stream's members and do
  not write them. \<open>SendPreroll_base\<close> is the implementation of \<^verbatim>\<open>Stream\<close> itself.
\<close>

record Derived =
  SendPreroll :: "Stream \<Rightarrow> media_sample \<Rightarrow> bool"
  OnPopulateSample :: "Stream \<Rightarrow> block_entry_ptr \<Rightarrow> media_sample \<Rightarrow> HRESULT"

definition SendPreroll_base :: "Stream \<Rightarrow> media_sample \<Rightarrow> bool" where
  "SendPreroll_base s pSample = False"

text \<open>
  A failed \<^verbatim>\<open>assert\<close> aborts the call, and so does the dereference of a null pointer.
  An operation returns \<open>Inl\<close> of the fault, or \<open>Inr\<close> of its result and the new members.
\<close>

datatype fault = AssertFailed | NullPointer

subsection \<open>Init and the constructor\<close>

definition Init :: "Track \<Rightarrow> Stream \<Rightarrow> Stream" where
  "Init t s =
     s\<lparr>m_pBase := None,
       m_pCurr := None,
       m_pStop := Some (Track_GetEOS t),
       m_bDiscontinuity := True\<rparr>"

text \<open>The constructor runs \<open>Init\<close> on members that hold whatever the memory held.\<close>

definition Stream_ctor :: "Track \<Rightarrow> Stream \<Rightarrow> Stream" where
  "Stream_ctor pTrack uninitialised = Init pTrack uninitialised"

subsection \<open>Seek\<close>

text \<open>
  The last step of \<open>Seek\<close> on either path: the block entry found becomes \<^verbatim>\<open>m_pCurr\<close>, the two
  assertions on it, and its cluster becomes \<^verbatim>\<open>m_pBase\<close>, which is returned.
\<close>

definition Seek_to :: "Track \<Rightarrow> block_entry_ptr \<Rightarrow> Stream \<Rightarrow> fault + cluster_ptr \<times> Stream" where
  "Seek_to t pBE s =
     (case pBE of
        None \<Rightarrow> Inl AssertFailed
      | Some e \<Rightarrow>
          if BlockEntry_EOS (m_pSegment t) e then Inl AssertFailed
          else
            let s' = s\<lparr>m_pCurr := pBE, m_pBase := BlockEntry_GetCluster (m_pSegment t) e\<rparr>
            in Inr (m_pBase s', s'))"

definition Seek :: "Track \<Rightarrow> int64 \<Rightarrow> bool \<Rightarrow> Stream \<Rightarrow> fault + cluster_ptr \<times> Stream" where
  "Seek t tCurr_ns use_cues s0 =
     (let pSegment = m_pSegment t;
          duration_ns = Segment_GetDuration pSegment
      in
        if \<not> 0 \<le>s duration_ns then Inl AssertFailed
        else
          let s = s0\<lparr>m_bDiscontinuity := True\<rparr> in
          if Segment_GetCount pSegment = 0 then
            (if Segment_Unparsed pSegment \<le>s 0
             then
               let s' = s\<lparr>m_pBase := Some (Segment_m_eos pSegment),
                          m_pCurr := Some (Track_GetEOS t)\<rparr>
               in Inr (m_pBase s', s')
             else
               let s' = s\<lparr>m_pBase := None, m_pCurr := None\<rparr>
               in Inr (m_pBase s', s'))
          else if tCurr_ns \<le>s 0 then
            (let s' = s\<lparr>m_pBase := None, m_pCurr := None\<rparr>
             in Inr (m_pBase s', s'))
          else if duration_ns \<le>s tCurr_ns then
            (let s' = s\<lparr>m_pBase := Some (Segment_m_eos pSegment),
                        m_pCurr := Some (Track_GetEOS t)\<rparr>
             in Inr (m_pBase s', s'))
          else
            (case (if use_cues then Segment_GetCues pSegment else None) of
               Some pCues \<Rightarrow>
                 (case Cues_Find pCues tCurr_ns of
                    Some (pCP, pTP) \<Rightarrow> Seek_to t (Cues_GetBlock pCues pCP pTP) s
                  | None \<Rightarrow> Seek_to t (Segment_Seek pSegment tCurr_ns) s)
             | None \<Rightarrow> Seek_to t (Segment_Seek pSegment tCurr_ns) s))"

subsection \<open>SetCurrPosition and SetStopPositionEOS\<close>

definition SetCurrPosition :: "Track \<Rightarrow> cluster_ptr \<Rightarrow> Stream \<Rightarrow> Stream" where
  "SetCurrPosition t pBase s =
     (let s1 = (case pBase of
                  None \<Rightarrow> s\<lparr>m_pCurr := None\<rparr>
                | Some c \<Rightarrow> s\<lparr>m_pCurr := Cluster_GetEntry (m_pSegment t) c\<rparr>)
      in s1\<lparr>m_pBase := pBase, m_bDiscontinuity := True\<rparr>)"

definition SetStopPositionEOS :: "Track \<Rightarrow> Stream \<Rightarrow> Stream" where
  "SetStopPositionEOS t s = s\<lparr>m_pStop := Some (Track_GetEOS t)\<rparr>"

subsection \<open>SetStopPosition\<close>

text \<open>
  \<^verbatim>\<open>pBlock->GetTime(pEntry->GetCluster())\<close> for the block of an entry. With \<open>asserted\<close> the
  null block fails the \<^verbatim>\<open>assert(pBlock)\<close> that precedes the call; without it the call
  dereferences the null pointer.
\<close>

definition entry_time :: "Segment \<Rightarrow> bool \<Rightarrow> block_entry \<Rightarrow> fault + int64" where
  "entry_time pSegment asserted e =
     (case BlockEntry_GetBlock pSegment e of
        None \<Rightarrow> Inl (if asserted then AssertFailed else NullPointer)
      | Some pBlock \<Rightarrow> Inr (Block_GetTime pSegment pBlock (BlockEntry_GetCluster pSegment e)))"

text \<open>
  The statements from the declaration of \<^verbatim>\<open>tCurr_ns\<close> to \<^verbatim>\<open>assert(duration_ns >= 0)\<close>:
  they give \<^verbatim>\<open>tCurr_ns\<close> and \<^verbatim>\<open>pCurrCluster\<close>, or fail.
\<close>

definition SetStopPosition_curr :: "Track \<Rightarrow> Stream \<Rightarrow> fault + int64 \<times> cluster" where
  "SetStopPosition_curr t s =
     (let pSegment = m_pSegment t in
      case (case m_pCurr s of
              None \<Rightarrow> Inr 0
            | Some c \<Rightarrow>
                (case entry_time pSegment False c of
                   Inl f \<Rightarrow> Inl f
                 | Inr tc \<Rightarrow> if 0 \<le>s tc then Inr tc else Inl AssertFailed)) of
        Inl f \<Rightarrow> Inl f
      | Inr tCurr_ns \<Rightarrow>
          let pFirst = Segment_GetFirst pSegment;
              pCurrCluster = (if m_pBase s \<noteq> None then m_pBase s else pFirst)
          in
            (case pCurrCluster of
               None \<Rightarrow> Inl AssertFailed
             | Some cc \<Rightarrow>
                 if Cluster_EOS pSegment cc then Inl AssertFailed
                 else if \<not> Cluster_GetTime pSegment cc \<le>s tCurr_ns then Inl AssertFailed
                 else if \<not> 0 \<le>s Segment_GetDuration pSegment then Inl AssertFailed
                 else Inr (tCurr_ns, cc)))"

text \<open>
  The \<^verbatim>\<open>switch\<close> on the positioning mode: it fails, or returns from the function with new
  members, or leaves \<^verbatim>\<open>tStop_ns\<close>.
\<close>

datatype stop_target = Fault fault | Return Stream | Target int64

definition SetStopPosition_target ::
    "Track \<Rightarrow> int64 \<Rightarrow> DWORD \<Rightarrow> int64 \<Rightarrow> Stream \<Rightarrow> stop_target" where
  "SetStopPosition_target t stoppos_reftime dwStopPos tCurr_ns s =
     (let pSegment = m_pSegment t;
          duration_ns = Segment_GetDuration pSegment;
          stoppos_ns = stoppos_reftime * 100
      in
        if dwStopPos = AM_SEEKING_AbsolutePositioning then Target stoppos_reftime
        else if dwStopPos = AM_SEEKING_RelativePositioning then
          (case m_pStop s of
             None \<Rightarrow> Target (duration_ns + stoppos_ns)
           | Some e \<Rightarrow>
               if BlockEntry_EOS pSegment e then Target (duration_ns + stoppos_ns)
               else
                 (case entry_time pSegment True e of
                    Inl f \<Rightarrow> Fault f
                  | Inr ts \<Rightarrow> Target (ts + stoppos_ns)))
        else if dwStopPos = AM_SEEKING_IncrementalPositioning then
          (if stoppos_reftime \<le>s 0 then Return (s\<lparr>m_pStop := m_pCurr s\<rparr>)
           else Target (tCurr_ns + stoppos_ns))
        else Fault AssertFailed)"

text \<open>The statements after the \<^verbatim>\<open>switch\<close>: the two clamps and the cluster lookup.\<close>

definition SetStopPosition_resolve ::
    "Track \<Rightarrow> int64 \<Rightarrow> cluster \<Rightarrow> int64 \<Rightarrow> Stream \<Rightarrow> fault + Stream" where
  "SetStopPosition_resolve t tCurr_ns pCurrCluster tStop_ns s =
     (let pSegment = m_pSegment t;
          duration_ns = Segment_GetDuration pSegment
      in
        if tStop_ns \<le>s tCurr_ns then Inr (s\<lparr>m_pStop := m_pCurr s\<rparr>)
        else if duration_ns \<le>s tStop_ns then Inr (s\<lparr>m_pStop := Some (Track_GetEOS t)\<rparr>)
        else
          (case Segment_FindCluster pSegment tStop_ns of
             None \<Rightarrow> Inl AssertFailed
           | Some found \<Rightarrow>
               (case (if found = pCurrCluster then Segment_GetNext pSegment found
                      else Some found) of
                  None \<Rightarrow> Inl NullPointer
                | Some pStopCluster \<Rightarrow>
                    let s' = s\<lparr>m_pStop := Cluster_GetEntry pSegment pStopCluster\<rparr> in
                    (case m_pStop s' of
                       None \<Rightarrow> Inr s'
                     | Some e \<Rightarrow>
                         if BlockEntry_EOS pSegment e then Inr s'
                         else
                           (case entry_time pSegment False e of
                              Inl f \<Rightarrow> Inl f
                            | Inr ts \<Rightarrow>
                                if tCurr_ns \<le>s ts then Inr s' else Inl AssertFailed)))))"

definition SetStopPosition :: "Track \<Rightarrow> int64 \<Rightarrow> DWORD \<Rightarrow> Stream \<Rightarrow> fault + Stream" where
  "SetStopPosition t stoppos_reftime dwStop s =
     (let dwStopPos = dwStop AND AM_SEEKING_PositioningBitsMask;
          pSegment = m_pSegment t
      in
        if dwStopPos = AM_SEEKING_NoPositioning then Inl AssertFailed
        else if Segment_GetCount pSegment = 0 then Inr (s\<lparr>m_pStop := Some (Track_GetEOS t)\<rparr>)
        else if (case m_pCurr s of None \<Rightarrow> False | Some c \<Rightarrow> BlockEntry_EOS pSegment c)
          then Inr (s\<lparr>m_pStop := Some (Track_GetEOS t)\<rparr>)
        else
          (case SetStopPosition_curr t s of
             Inl f \<Rightarrow> Inl f
           | Inr (tCurr_ns, pCurrCluster) \<Rightarrow>
               (case SetStopPosition_target t stoppos_reftime dwStopPos tCurr_ns s of
                  Fault f \<Rightarrow> Inl f
                | Return s' \<Rightarrow> Inr s'
                | Target tStop_ns \<Rightarrow>
                    SetStopPosition_resolve t tCurr_ns pCurrCluster tStop_ns s)))"

subsection \<open>PopulateSample\<close>

text \<open>
  The part of \<open>PopulateSample\<close> after the lazy initialisation, where \<^verbatim>\<open>m_pCurr\<close> is not null:
  the end-of-stream tests, the step to the next block and the delivery.
\<close>

definition PopulateSample_next ::
    "Track \<Rightarrow> Derived \<Rightarrow> media_sample \<Rightarrow> Stream \<Rightarrow> fault + HRESULT \<times> Stream" where
  "PopulateSample_next t d pSample s =
     (case m_pCurr s of
        None \<Rightarrow> Inl NullPointer
      | Some c \<Rightarrow>
          if (if m_pStop s = None then BlockEntry_EOS (m_pSegment t) c
              else m_pCurr s = m_pStop s)
          then Inr (S_FALSE, s)
          else
            (case Track_GetNext t c of
               (status, pNextBlock) \<Rightarrow>
                 if status = E_BUFFER_NOT_FULL then Inr (VFW_E_BUFFER_UNDERFLOW, s)
                 else if \<not> 0 \<le>s status then Inl AssertFailed
                 else if pNextBlock = None then Inl AssertFailed
                 else
                   let hr = OnPopulateSample d s pNextBlock pSample in
                   if \<not> SUCCEEDED hr then Inl AssertFailed
                   else
                     let s' = s\<lparr>m_pCurr := pNextBlock\<rparr> in
                     if hr \<noteq> S_OK then Inr (SkippedSample, s')
                     else Inr (S_OK, s'\<lparr>m_bDiscontinuity := False\<rparr>)))"

definition PopulateSample ::
    "Track \<Rightarrow> Derived \<Rightarrow> media_sample_ptr \<Rightarrow> Stream \<Rightarrow> fault + HRESULT \<times> Stream" where
  "PopulateSample t d pSample s =
     (case pSample of
        None \<Rightarrow> Inr (E_INVALIDARG, s)
      | Some smp \<Rightarrow>
          if SendPreroll d s smp then Inr (S_OK, s)
          else if m_pCurr s = None then
            (case Track_GetFirst t of
               (status, pFirstBlock) \<Rightarrow>
                 let s1 = s\<lparr>m_pCurr := pFirstBlock\<rparr> in
                 if status = E_BUFFER_NOT_FULL then Inr (VFW_E_BUFFER_UNDERFLOW, s1)
                 else if \<not> 0 \<le>s status then Inl AssertFailed
                 else if m_pCurr s1 = None then Inl AssertFailed
                 else
                   let s2 = s1\<lparr>m_pBase := Segment_GetFirst (m_pSegment t)\<rparr> in
                   if m_pBase s2 = None then Inl AssertFailed
                   else PopulateSample_next t d smp s2)
          else PopulateSample_next t d smp s)"

section \<open>Sequences of calls\<close>

text \<open>
  The members a stream can have between its initialisation and the first block that its
  sink accepts: \<open>Init\<close> or the constructor, then any calls of the operations that write
  members, where no \<open>PopulateSample\<close> has returned \<^verbatim>\<open>S_OK\<close>. (A call that returns
  \<^verbatim>\<open>S_OK\<close> because the preroll hook served it leaves the members as they are.)
\<close>

inductive undelivered :: "Stream \<Rightarrow> bool" where
  init: "undelivered (Init t s)"
| ctor: "undelivered (Stream_ctor t s)"
| seek: "undelivered s \<Longrightarrow> Seek t ns use_cues s = Inr (c, s') \<Longrightarrow> undelivered s'"
| curr: "undelivered s \<Longrightarrow> undelivered (SetCurrPosition t c s)"
| stop: "undelivered s \<Longrightarrow> SetStopPosition t off dw s = Inr s' \<Longrightarrow> undelivered s'"
| stop_eos: "undelivered s \<Longrightarrow> undelivered (SetStopPositionEOS t s)"
| pull: "undelivered s \<Longrightarrow> PopulateSample t d p s = Inr (hr, s') \<Longrightarrow> hr \<noteq> S_OK \<Longrightarrow>
     undelivered s'"

text \<open>
  The pull loop of the caller: one \<open>PopulateSample\<close> after the other, each with the track
  as it is at that moment, and the statuses in the order of the calls. A fault ends it.
\<close>

fun pulls ::
    "(Track \<times> Derived \<times> media_sample_ptr) list \<Rightarrow> Stream \<Rightarrow> fault + HRESULT list \<times> Stream"
    where
  "pulls [] s = Inr ([], s)"
| "pulls ((t, d, pSample) # calls) s =
     (case PopulateSample t d pSample s of
        Inl f \<Rightarrow> Inl f
      | Inr (hr, s') \<Rightarrow>
          (case pulls calls s' of
             Inl f \<Rightarrow> Inl f
           | Inr (hrs, s'') \<Rightarrow> Inr (hr # hrs, s'')))"

section \<open>A container to run the operations on\<close>

text \<open>
  Five clusters of one second each, with one block of the track at the start of each; the
  duration is five seconds. \<open>Cluster 99\<close> is the end-of-stream cluster of the segment and
  \<open>BlockEntry 99\<close> the end-of-stream entry of the track.
\<close>

definition ex_segment :: Segment where
  "ex_segment =
     \<lparr>Segment_GetDuration = 5000000000,
      Segment_GetCount = 5,
      Segment_Unparsed = 0,
      Segment_m_eos = Cluster 99,
      Segment_GetFirst = Some (Cluster 0),
      Segment_GetNext = (\<lambda>c. case c of Cluster n \<Rightarrow>
                           if n < 4 then Some (Cluster (n + 1))
                           else if n = 4 then Some (Cluster 99) else None),
      Segment_FindCluster = (\<lambda>ns.
         if ns <s 1000000000 then Some (Cluster 0)
         else if ns <s 2000000000 then Some (Cluster 1)
         else if ns <s 3000000000 then Some (Cluster 2)
         else if ns <s 4000000000 then Some (Cluster 3)
         else Some (Cluster 4)),
      Segment_Seek = (\<lambda>ns.
         if ns <s 1000000000 then Some (BlockEntry 0)
         else if ns <s 2000000000 then Some (BlockEntry 1)
         else if ns <s 3000000000 then Some (BlockEntry 2)
         else if ns <s 4000000000 then Some (BlockEntry 3)
         else Some (BlockEntry 4)),
      Segment_GetCues = None,
      Cluster_EOS = (\<lambda>c. c = Cluster 99),
      Cluster_GetTime = (\<lambda>c. case c of Cluster n \<Rightarrow> of_nat n * 1000000000),
      Cluster_GetEntry = (\<lambda>c. case c of Cluster n \<Rightarrow>
                            if n < 5 then Some (BlockEntry n) else Some (BlockEntry 99)),
      BlockEntry_EOS = (\<lambda>e. e = BlockEntry 99),
      BlockEntry_GetBlock = (\<lambda>e. case e of BlockEntry n \<Rightarrow>
                               if n < 5 then Some (Block n) else None),
      BlockEntry_GetCluster = (\<lambda>e. case e of BlockEntry n \<Rightarrow>
                                 if n < 5 then Some (Cluster n) else None),
      Block_GetTime = (\<lambda>b c. case b of Block n \<Rightarrow> of_nat n * 1000000000)\<rparr>"

definition ex_track :: Track where
  "ex_track =
     \<lparr>m_pSegment = ex_segment,
      Track_GetEOS = BlockEntry 99,
      Track_GetFirst = (0, Some (BlockEntry 0)),
      Track_GetNext = (\<lambda>e. case e of BlockEntry n \<Rightarrow>
                         if n < 4 then (0, Some (BlockEntry (n + 1)))
                         else (1, Some (BlockEntry 99)))\<rparr>"

definition ex_sink :: Derived where
  "ex_sink = \<lparr>SendPreroll = SendPreroll_base, OnPopulateSample = (\<lambda>s pNext pSample. S_OK)\<rparr>"

text \<open>
  Members as the memory may hold them before the constructor has run.
\<close>

definition ex_members :: Stream where
  "ex_members = \<lparr>m_bDiscontinuity = False, m_pCurr = None, m_pStop = None, m_pBase = None\<rparr>"

text \<open>
  A stream after a seek to one second and a half: it stands on the block of the second
  cluster and plays to the end.
\<close>

definition ex_positioned :: Stream where
  "ex_positioned =
     \<lparr>m_bDiscontinuity = True, m_pCurr = Some (BlockEntry 1),
       m_pStop = Some (BlockEntry 99), m_pBase = Some (Cluster 1)\<rparr>"


text \<open>
  The same file while it is being loaded: the first cluster is there, the block after the
  first one is not yet.
\<close>

definition ex_loading_track :: Track where
  "ex_loading_track =
     ex_track\<lparr>m_pSegment := ex_segment\<lparr>Segment_GetCount := 1, Segment_Unparsed := 1000\<rparr>,
              Track_GetNext := (\<lambda>e. (E_BUFFER_NOT_FULL, None))\<rparr>"

text \<open>
  The same file with a duration of zero.
\<close>

definition ex_zero_duration_track :: Track where
  "ex_zero_duration_track =
     ex_track\<lparr>m_pSegment := ex_segment\<lparr>Segment_GetDuration := 0\<rparr>\<rparr>"

text \<open>
  The same file before any cluster is loaded.
\<close>

definition ex_empty_track :: Track where
  "ex_empty_track =
     ex_track\<lparr>m_pSegment := ex_segment\<lparr>Segment_GetCount := 0, Segment_Unparsed := 1000\<rparr>\<rparr>"

text \<open>
  A sink that takes no sample: it answers \<^verbatim>\<open>S_FALSE\<close>, a success code other than \<^verbatim>\<open>S_OK\<close>.
\<close>

definition ex_rejecting_sink :: Derived where
  "ex_rejecting_sink = ex_sink\<lparr>OnPopulateSample := (\<lambda>s pNext pSample. S_FALSE)\<rparr>"

lemmas ex_defs = ex_segment_def ex_track_def ex_sink_def ex_members_def SendPreroll_base_def

lemmas mode_defs =
  AM_SEEKING_NoPositioning_def AM_SEEKING_AbsolutePositioning_def
  AM_SEEKING_RelativePositioning_def AM_SEEKING_IncrementalPositioning_def
  AM_SEEKING_PositioningBitsMask_def

lemmas status_defs =
  S_OK_def S_FALSE_def E_INVALIDARG_def VFW_E_BUFFER_UNDERFLOW_def SkippedSample_def

lemmas resolve_eval =
  SetStopPosition_resolve_def SetStopPosition_target_def entry_time_def ex_positioned_def
  ex_defs mode_defs Let_def word_sle_eq word_sless_alt

lemma ex_positioned_guards:
  "Segment_GetCount (m_pSegment ex_track) \<noteq> 0"
  "\<not> (case m_pCurr ex_positioned of None \<Rightarrow> False
        | Some c \<Rightarrow> BlockEntry_EOS (m_pSegment ex_track) c)"
  "SetStopPosition_curr ex_track ex_positioned = Inr (1000000000, Cluster 1)"
  by (simp_all add: SetStopPosition_curr_def entry_time_def ex_positioned_def ex_defs Let_def
      word_sle_eq)


section \<open>The discontinuity flag\<close>

lemma Seek_to_discontinuity:
  "Seek_to t pBE s = Inr (c, s') \<Longrightarrow> m_bDiscontinuity s' = m_bDiscontinuity s"
  by (auto simp: Seek_to_def Let_def split: option.splits if_splits)

lemma Seek_discontinuity:
  "Seek t ns use_cues s = Inr (c, s') \<Longrightarrow> m_bDiscontinuity s'"
  unfolding Seek_def Let_def
  by (auto split: if_splits option.splits dest!: Seek_to_discontinuity)

lemma SetStopPosition_resolve_discontinuity:
  "SetStopPosition_resolve t tc cc ts s = Inr s' \<Longrightarrow> m_bDiscontinuity s' = m_bDiscontinuity s"
  unfolding SetStopPosition_resolve_def Let_def
  by (auto split: if_splits option.splits sum.splits)

lemma SetStopPosition_discontinuity:
  "SetStopPosition t off dw s = Inr s' \<Longrightarrow> m_bDiscontinuity s' = m_bDiscontinuity s"
  unfolding SetStopPosition_def SetStopPosition_target_def Let_def
  by (auto split: if_splits option.splits sum.splits stop_target.splits prod.splits
      dest: SetStopPosition_resolve_discontinuity)

lemma PopulateSample_next_discontinuity:
  "PopulateSample_next t d smp s = Inr (hr, s') \<Longrightarrow> hr \<noteq> S_OK \<Longrightarrow>
     m_bDiscontinuity s' = m_bDiscontinuity s"
  unfolding PopulateSample_next_def Let_def
  by (auto simp: status_defs split: if_splits option.splits prod.splits)

lemma PopulateSample_discontinuity:
  "PopulateSample t d p s = Inr (hr, s') \<Longrightarrow> hr \<noteq> S_OK \<Longrightarrow>
     m_bDiscontinuity s' = m_bDiscontinuity s"
  unfolding PopulateSample_def Let_def
  by (auto split: if_splits option.splits prod.splits dest: PopulateSample_next_discontinuity)

lemma undelivered_discontinuity: "undelivered s \<Longrightarrow> m_bDiscontinuity s"
proof (induction rule: undelivered.induct)
  case (seek s t ns use_cues c s')
  then show ?case by (simp add: Seek_discontinuity)
next
  case (stop s t off dw s')
  then show ?case by (simp add: SetStopPosition_discontinuity)
next
  case (pull s t d p hr s')
  then show ?case by (simp add: PopulateSample_discontinuity)
qed (simp_all add: Init_def Stream_ctor_def SetCurrPosition_def SetStopPositionEOS_def Let_def
    split: option.splits)

lemma PopulateSample_next_delivers:
  "PopulateSample_next t d smp s = Inr (S_OK, s') \<Longrightarrow>
     \<exists>pNext. OnPopulateSample d s pNext smp = S_OK \<and>
       s' = s\<lparr>m_pCurr := pNext, m_bDiscontinuity := False\<rparr>"
  unfolding PopulateSample_next_def Let_def
  by (auto simp: status_defs split: if_splits option.splits prod.splits)

lemma PopulateSample_delivers:
  assumes "PopulateSample t d (Some smp) s = Inr (S_OK, s')" and "\<not> SendPreroll d s smp"
  shows "\<exists>s1 pNext. m_bDiscontinuity s1 = m_bDiscontinuity s \<and>
           OnPopulateSample d s1 pNext smp = S_OK \<and>
           s' = s1\<lparr>m_pCurr := pNext, m_bDiscontinuity := False\<rparr>"
proof (cases "m_pCurr s = None")
  case False
  with assms have "PopulateSample_next t d smp s = Inr (S_OK, s')"
    by (simp add: PopulateSample_def)
  from PopulateSample_next_delivers [OF this] show ?thesis by blast
next
  case True
  obtain status pFirstBlock where f: "Track_GetFirst t = (status, pFirstBlock)"
    by (cases "Track_GetFirst t")
  let ?s2 = "s\<lparr>m_pCurr := pFirstBlock, m_pBase := Segment_GetFirst (m_pSegment t)\<rparr>"
  from assms True f have "PopulateSample_next t d smp ?s2 = Inr (S_OK, s')"
    by (simp add: PopulateSample_def Let_def status_defs split: if_splits)
  from PopulateSample_next_delivers [OF this] obtain pNext where
    "OnPopulateSample d ?s2 pNext smp = S_OK"
    "s' = ?s2\<lparr>m_pCurr := pNext, m_bDiscontinuity := False\<rparr>" by blast
  moreover have "m_bDiscontinuity ?s2 = m_bDiscontinuity s" by simp
  ultimately show ?thesis by blast
qed

text \<open>
  C10. \<open>Init\<close>, and with it the constructor, leaves the discontinuity flag true, next to a
  null \<^verbatim>\<open>m_pCurr\<close>, a null \<^verbatim>\<open>m_pBase\<close> and the track's end-of-stream entry as \<^verbatim>\<open>m_pStop\<close>. The
  flag stays true through every later call until a block is delivered, so the first
  delivery that the sink accepts after an initialisation is made with the flag true.
\<close>

theorem Init_discontinuity:
  "Init t s = \<lparr>m_bDiscontinuity = True, m_pCurr = None,
                m_pStop = Some (Track_GetEOS t), m_pBase = None\<rparr> \<and>
   Stream_ctor t s = Init t s \<and>
   (undelivered s1 \<longrightarrow> m_bDiscontinuity s1) \<and>
   (undelivered s1 \<longrightarrow> \<not> SendPreroll d s1 smp \<longrightarrow>
      PopulateSample t1 d (Some smp) s1 = Inr (S_OK, s2) \<longrightarrow>
      (\<exists>s3 pNext. m_bDiscontinuity s3 \<and> OnPopulateSample d s3 pNext smp = S_OK \<and>
         s2 = s3\<lparr>m_pCurr := pNext, m_bDiscontinuity := False\<rparr>))"
proof (intro conjI impI)
  show "Init t s = \<lparr>m_bDiscontinuity = True, m_pCurr = None,
                m_pStop = Some (Track_GetEOS t), m_pBase = None\<rparr>"
    by (simp add: Init_def)
  show "Stream_ctor t s = Init t s" by (simp add: Stream_ctor_def)
  show "m_bDiscontinuity s1" if "undelivered s1" using that by (rule undelivered_discontinuity)
next
  assume u: "undelivered s1" and p: "\<not> SendPreroll d s1 smp"
    and r: "PopulateSample t1 d (Some smp) s1 = Inr (S_OK, s2)"
  from PopulateSample_delivers [OF r p] undelivered_discontinuity [OF u]
  show "\<exists>s3 pNext. m_bDiscontinuity s3 \<and> OnPopulateSample d s3 pNext smp = S_OK \<and>
         s2 = s3\<lparr>m_pCurr := pNext, m_bDiscontinuity := False\<rparr>"
    by metis
qed

theorem Init_discontinuity_witness:
  "undelivered (Init ex_track ex_members) \<and>
   \<not> SendPreroll ex_sink (Init ex_track ex_members) (MediaSample 0) \<and>
   PopulateSample ex_track ex_sink (Some (MediaSample 0)) (Init ex_track ex_members) =
     Inr (S_OK, \<lparr>m_bDiscontinuity = False, m_pCurr = Some (BlockEntry 1),
                  m_pStop = Some (BlockEntry 99), m_pBase = Some (Cluster 0)\<rparr>) \<and>
   m_bDiscontinuity (Init ex_track ex_members) \<and>
   (\<exists>s3 pNext. m_bDiscontinuity s3 \<and>
      OnPopulateSample ex_sink s3 pNext (MediaSample 0) = S_OK \<and>
      \<lparr>m_bDiscontinuity = False, m_pCurr = Some (BlockEntry 1),
        m_pStop = Some (BlockEntry 99), m_pBase = Some (Cluster 0)\<rparr> =
        s3\<lparr>m_pCurr := pNext, m_bDiscontinuity := False\<rparr>)"
proof -
  have u: "undelivered (Init ex_track ex_members)" by (rule undelivered.init)
  have p: "\<not> SendPreroll ex_sink (Init ex_track ex_members) (MediaSample 0)"
    by (simp add: ex_defs)
  have r: "PopulateSample ex_track ex_sink (Some (MediaSample 0)) (Init ex_track ex_members) =
     Inr (S_OK, \<lparr>m_bDiscontinuity = False, m_pCurr = Some (BlockEntry 1),
                  m_pStop = Some (BlockEntry 99), m_pBase = Some (Cluster 0)\<rparr>)"
    by (simp add: PopulateSample_def PopulateSample_next_def Init_def ex_defs status_defs
        E_BUFFER_NOT_FULL_def SUCCEEDED_def Let_def word_sle_eq)
  from Init_discontinuity [of ex_track ex_members "Init ex_track ex_members" ex_sink
      "MediaSample 0" ex_track] u p r
  show ?thesis by simp
qed

lemma Seek_early_returns:
  assumes "0 \<le>s Segment_GetDuration (m_pSegment t)"
      and "Segment_GetCount (m_pSegment t) = 0 \<or> ns \<le>s 0 \<or>
           Segment_GetDuration (m_pSegment t) \<le>s ns"
  shows "\<exists>c s'. Seek t ns use_cues s = Inr (c, s') \<and> m_bDiscontinuity s'"
  using assms by (auto simp: Seek_def Let_def)

text \<open>
  C9. Every call of \<open>Seek\<close> that returns has set the discontinuity flag, whichever of its
  paths it took and whatever the members were before: the assignment follows the
  assertion on the duration and precedes every \<^verbatim>\<open>return\<close>. Where that assertion holds, the
  calls on an empty segment, with a target of zero or less, and with a target at or beyond
  the duration do return.
\<close>

theorem Seek_sets_discontinuity:
  "(Seek t tCurr_ns use_cues s = Inr (pBase, s') \<longrightarrow> m_bDiscontinuity s') \<and>
   (0 \<le>s Segment_GetDuration (m_pSegment t) \<longrightarrow>
    Segment_GetCount (m_pSegment t) = 0 \<or> tCurr_ns \<le>s 0 \<or>
      Segment_GetDuration (m_pSegment t) \<le>s tCurr_ns \<longrightarrow>
    (\<exists>c s''. Seek t tCurr_ns use_cues s = Inr (c, s'') \<and> m_bDiscontinuity s''))"
  using Seek_discontinuity [of t tCurr_ns use_cues s pBase s']
    Seek_early_returns [of t tCurr_ns use_cues s]
  by blast

theorem Seek_sets_discontinuity_witness:
  "Seek ex_track 1500000000 False (ex_positioned\<lparr>m_bDiscontinuity := False\<rparr>) =
     Inr (Some (Cluster 1), ex_positioned) \<and>
   m_bDiscontinuity ex_positioned \<and>
   Seek ex_empty_track 1500000000 True ex_members =
     Inr (None, ex_members\<lparr>m_bDiscontinuity := True\<rparr>) \<and>
   Seek ex_track 0 True ex_members =
     Inr (None, ex_members\<lparr>m_bDiscontinuity := True\<rparr>) \<and>
   Seek ex_track 5000000000 True ex_members =
     Inr (Some (Cluster 99),
          ex_members\<lparr>m_bDiscontinuity := True, m_pBase := Some (Cluster 99),
            m_pCurr := Some (BlockEntry 99)\<rparr>) \<and>
   m_bDiscontinuity (ex_members\<lparr>m_bDiscontinuity := True\<rparr>)"
proof -
  have same: "Seek ex_track 1500000000 False (ex_positioned\<lparr>m_bDiscontinuity := False\<rparr>) =
      Inr (Some (Cluster 1), ex_positioned)"
    and empty: "Seek ex_empty_track 1500000000 True ex_members =
      Inr (None, ex_members\<lparr>m_bDiscontinuity := True\<rparr>)"
    and start: "Seek ex_track 0 True ex_members =
      Inr (None, ex_members\<lparr>m_bDiscontinuity := True\<rparr>)"
    and finish: "Seek ex_track 5000000000 True ex_members =
      Inr (Some (Cluster 99),
           ex_members\<lparr>m_bDiscontinuity := True, m_pBase := Some (Cluster 99),
             m_pCurr := Some (BlockEntry 99)\<rparr>)"
    by (simp_all add: Seek_def Seek_to_def ex_positioned_def ex_empty_track_def ex_defs Let_def
        word_sle_eq word_sless_alt)
  from Seek_sets_discontinuity [of ex_track 1500000000 False
      "ex_positioned\<lparr>m_bDiscontinuity := False\<rparr>" "Some (Cluster 1)" ex_positioned]
    same empty start finish
  show ?thesis by simp
qed

section \<open>Seek at the two ends\<close>

text \<open>
  C2, as the code has it. With at least one cluster loaded and a duration that passes
  the assertion, a target of zero or less gives the null cluster and null \<^verbatim>\<open>m_pBase\<close> and
  \<^verbatim>\<open>m_pCurr\<close>; a positive target at or beyond the duration gives the end-of-stream cluster,
  which becomes \<^verbatim>\<open>m_pBase\<close>, and the track's end-of-stream entry as \<^verbatim>\<open>m_pCurr\<close>. The test for
  zero or less comes first.
\<close>

theorem Seek_boundaries:
  assumes "Segment_GetCount (m_pSegment t) \<noteq> 0"
      and "0 \<le>s Segment_GetDuration (m_pSegment t)"
  shows "(tCurr_ns \<le>s 0 \<longrightarrow>
            Seek t tCurr_ns use_cues s =
              Inr (None, s\<lparr>m_bDiscontinuity := True, m_pBase := None, m_pCurr := None\<rparr>)) \<and>
         (0 <s tCurr_ns \<longrightarrow> Segment_GetDuration (m_pSegment t) \<le>s tCurr_ns \<longrightarrow>
            Seek t tCurr_ns use_cues s =
              Inr (Some (Segment_m_eos (m_pSegment t)),
                   s\<lparr>m_bDiscontinuity := True,
                     m_pBase := Some (Segment_m_eos (m_pSegment t)),
                     m_pCurr := Some (Track_GetEOS t)\<rparr>))"
  using assms by (auto simp: Seek_def Let_def signed.not_le)

theorem Seek_boundaries_witness:
  "Segment_GetCount (m_pSegment ex_track) \<noteq> 0 \<and>
   0 \<le>s Segment_GetDuration (m_pSegment ex_track) \<and>
   Seek ex_track (- 5) True ex_members =
     Inr (None, \<lparr>m_bDiscontinuity = True, m_pCurr = None, m_pStop = None, m_pBase = None\<rparr>) \<and>
   Seek ex_track 5000000000 True ex_members =
     Inr (Some (Cluster 99),
          \<lparr>m_bDiscontinuity = True, m_pCurr = Some (BlockEntry 99), m_pStop = None,
            m_pBase = Some (Cluster 99)\<rparr>)"
proof -
  have c: "Segment_GetCount (m_pSegment ex_track) \<noteq> 0"
    and d: "0 \<le>s Segment_GetDuration (m_pSegment ex_track)"
    by (simp_all add: ex_defs word_sle_eq)
  from Seek_boundaries [OF c d, of "- 5" True ex_members]
       Seek_boundaries [OF c d, of 5000000000 True ex_members] c d
  show ?thesis by (simp add: ex_defs word_sle_eq word_sless_alt)
qed

text \<open>
  A segment of duration zero with clusters loaded: the target 0 is at the duration, and
  \<open>Seek\<close> returns the null cluster, not the end-of-stream one.
\<close>

theorem Seek_zero_duration_counterexample:
  "Segment_GetCount (m_pSegment ex_zero_duration_track) \<noteq> 0 \<and>
   Segment_GetDuration (m_pSegment ex_zero_duration_track) \<le>s 0 \<and>
   Seek ex_zero_duration_track 0 False ex_members =
     Inr (None, \<lparr>m_bDiscontinuity = True, m_pCurr = None, m_pStop = None, m_pBase = None\<rparr>) \<and>
   None \<noteq> Some (Segment_m_eos (m_pSegment ex_zero_duration_track)) \<and>
   None \<noteq> Some (Track_GetEOS ex_zero_duration_track)"
  by (simp add: Seek_def ex_zero_duration_track_def ex_defs Let_def word_sle_eq)

section \<open>PopulateSample\<close>

lemma at_stop_single_call:
  assumes "m_pCurr s = m_pStop s" and "m_pCurr s \<noteq> None" and "\<not> SendPreroll d s smp"
  shows "PopulateSample t d (Some smp) s = Inr (S_FALSE, s)"
  using assms by (auto simp: PopulateSample_def PopulateSample_next_def)

lemma at_stop_repeated_calls:
  assumes "m_pCurr s = m_pStop s" and "m_pCurr s \<noteq> None"
  shows "(\<forall>(t, d, p) \<in> set calls. \<exists>smp. p = Some smp \<and> \<not> SendPreroll d s smp) \<Longrightarrow>
           pulls calls s = Inr (replicate (length calls) S_FALSE, s)"
proof (induction calls)
  case Nil
  then show ?case by simp
next
  case (Cons call calls)
  obtain t d p where call: "call = (t, d, p)" by (cases call)
  with Cons.prems obtain smp where "p = Some smp" "\<not> SendPreroll d s smp" by auto
  with assms have "PopulateSample t d p s = Inr (S_FALSE, s)"
    by (simp add: at_stop_single_call)
  moreover from Cons have "pulls calls s = Inr (replicate (length calls) S_FALSE, s)" by simp
  ultimately show ?case by (simp add: call)
qed

text \<open>
  C1, as the code has it. When \<^verbatim>\<open>m_pCurr\<close> equals \<^verbatim>\<open>m_pStop\<close> and is not null, a call with a
  sample and a declining preroll hook returns \<^verbatim>\<open>S_FALSE\<close> and leaves every member as it was,
  whatever the sink is; so does any number of such calls, one after the other.
\<close>

theorem PopulateSample_at_stop:
  assumes "m_pCurr s = m_pStop s" and "m_pCurr s \<noteq> None"
  shows "(\<not> SendPreroll d s smp \<longrightarrow> PopulateSample t d (Some smp) s = Inr (S_FALSE, s)) \<and>
         ((\<forall>(t, d, p) \<in> set calls. \<exists>smp. p = Some smp \<and> \<not> SendPreroll d s smp) \<longrightarrow>
            pulls calls s = Inr (replicate (length calls) S_FALSE, s))"
  using assms by (simp add: at_stop_single_call at_stop_repeated_calls)

theorem PopulateSample_at_stop_witness:
  "m_pCurr \<lparr>m_bDiscontinuity = False, m_pCurr = Some (BlockEntry 2),
            m_pStop = Some (BlockEntry 2), m_pBase = Some (Cluster 0)\<rparr> =
   m_pStop \<lparr>m_bDiscontinuity = False, m_pCurr = Some (BlockEntry 2),
            m_pStop = Some (BlockEntry 2), m_pBase = Some (Cluster 0)\<rparr> \<and>
   PopulateSample ex_track ex_sink (Some (MediaSample 0))
     \<lparr>m_bDiscontinuity = False, m_pCurr = Some (BlockEntry 2),
       m_pStop = Some (BlockEntry 2), m_pBase = Some (Cluster 0)\<rparr> =
     Inr (S_FALSE, \<lparr>m_bDiscontinuity = False, m_pCurr = Some (BlockEntry 2),
                     m_pStop = Some (BlockEntry 2), m_pBase = Some (Cluster 0)\<rparr>) \<and>
   pulls [(ex_track, ex_sink, Some (MediaSample 0)), (ex_track, ex_sink, Some (MediaSample 1))]
     \<lparr>m_bDiscontinuity = False, m_pCurr = Some (BlockEntry 2),
       m_pStop = Some (BlockEntry 2), m_pBase = Some (Cluster 0)\<rparr> =
     Inr ([S_FALSE, S_FALSE], \<lparr>m_bDiscontinuity = False, m_pCurr = Some (BlockEntry 2),
                     m_pStop = Some (BlockEntry 2), m_pBase = Some (Cluster 0)\<rparr>)"
proof -
  let ?s = "\<lparr>m_bDiscontinuity = False, m_pCurr = Some (BlockEntry 2),
             m_pStop = Some (BlockEntry 2), m_pBase = Some (Cluster 0)\<rparr>"
  have a: "m_pCurr ?s = m_pStop ?s" and b: "m_pCurr ?s \<noteq> None" by simp_all
  have p: "\<not> SendPreroll ex_sink ?s smp" for smp by (simp add: ex_defs)
  from PopulateSample_at_stop [OF a b, of ex_sink "MediaSample 0" ex_track
      "[(ex_track, ex_sink, Some (MediaSample 0)), (ex_track, ex_sink, Some (MediaSample 1))]"]
    p
  show ?thesis by (simp del: pulls.simps)
qed

text \<open>
  After \<open>Init\<close> and an incremental stop position of 0, \<^verbatim>\<open>m_pCurr\<close> and \<^verbatim>\<open>m_pStop\<close> are equal:
  both are null. The next call initialises \<^verbatim>\<open>m_pCurr\<close> and \<^verbatim>\<open>m_pBase\<close>, takes the null
  \<^verbatim>\<open>m_pStop\<close> as "play to the end", and delivers a block with \<^verbatim>\<open>S_OK\<close>.
\<close>

theorem PopulateSample_null_stop_counterexample:
  "SetStopPosition ex_track 0 AM_SEEKING_IncrementalPositioning (Init ex_track ex_members) =
     Inr \<lparr>m_bDiscontinuity = True, m_pCurr = None, m_pStop = None, m_pBase = None\<rparr> \<and>
   m_pCurr \<lparr>m_bDiscontinuity = True, m_pCurr = None, m_pStop = None, m_pBase = None\<rparr> =
   m_pStop \<lparr>m_bDiscontinuity = True, m_pCurr = None, m_pStop = None, m_pBase = None\<rparr> \<and>
   \<not> SendPreroll ex_sink
       \<lparr>m_bDiscontinuity = True, m_pCurr = None, m_pStop = None, m_pBase = None\<rparr>
       (MediaSample 0) \<and>
   PopulateSample ex_track ex_sink (Some (MediaSample 0))
     \<lparr>m_bDiscontinuity = True, m_pCurr = None, m_pStop = None, m_pBase = None\<rparr> =
     Inr (S_OK, \<lparr>m_bDiscontinuity = False, m_pCurr = Some (BlockEntry 1),
                  m_pStop = None, m_pBase = Some (Cluster 0)\<rparr>) \<and>
   PopulateSample ex_track ex_sink (Some (MediaSample 0))
     \<lparr>m_bDiscontinuity = True, m_pCurr = None, m_pStop = None, m_pBase = None\<rparr> \<noteq>
     Inr (S_FALSE, \<lparr>m_bDiscontinuity = True, m_pCurr = None, m_pStop = None, m_pBase = None\<rparr>)"
  by (simp add: SetStopPosition_def SetStopPosition_curr_def SetStopPosition_target_def
      PopulateSample_def PopulateSample_next_def Init_def ex_defs status_defs mode_defs
      E_BUFFER_NOT_FULL_def SUCCEEDED_def Let_def word_sle_eq)

lemma PopulateSample_next_underflow:
  "PopulateSample_next t d smp s = Inr (VFW_E_BUFFER_UNDERFLOW, s') \<Longrightarrow>
     s' = s \<and> (\<exists>c. m_pCurr s = Some c \<and> fst (Track_GetNext t c) = E_BUFFER_NOT_FULL)"
  unfolding PopulateSample_next_def Let_def
  by (auto simp: status_defs split: if_splits option.splits prod.splits)

text \<open>
  C7, as the code has it. A call that returns \<^verbatim>\<open>VFW_E_BUFFER_UNDERFLOW\<close> leaves \<^verbatim>\<open>m_pStop\<close> as
  it was. If \<^verbatim>\<open>m_pCurr\<close> was not null, it leaves all members as they were. If \<^verbatim>\<open>m_pCurr\<close> was
  null, either \<^verbatim>\<open>GetFirst\<close> reported the underflow, and \<^verbatim>\<open>m_pCurr\<close> is what it left in its
  reference parameter, or the lazy initialisation stays: \<^verbatim>\<open>m_pCurr\<close> is the first block,
  \<^verbatim>\<open>m_pBase\<close> the first cluster, and \<^verbatim>\<open>GetNext\<close> reported the underflow.
\<close>

theorem underflow_keeps_position:
  assumes "PopulateSample t d pSample s = Inr (VFW_E_BUFFER_UNDERFLOW, s')"
  shows "m_pStop s' = m_pStop s \<and>
         (m_pCurr s \<noteq> None \<longrightarrow> s' = s) \<and>
         (m_pCurr s = None \<longrightarrow>
            fst (Track_GetFirst t) = E_BUFFER_NOT_FULL \<and>
              s' = s\<lparr>m_pCurr := snd (Track_GetFirst t)\<rparr> \<or>
            fst (Track_GetFirst t) \<noteq> E_BUFFER_NOT_FULL \<and>
              s' = s\<lparr>m_pCurr := snd (Track_GetFirst t),
                     m_pBase := Segment_GetFirst (m_pSegment t)\<rparr> \<and>
              (\<exists>c. m_pCurr s' = Some c \<and> fst (Track_GetNext t c) = E_BUFFER_NOT_FULL))"
proof (cases "m_pCurr s = None")
  case False
  with assms have "PopulateSample_next t d (the pSample) s = Inr (VFW_E_BUFFER_UNDERFLOW, s')"
    by (auto simp: PopulateSample_def status_defs split: option.splits if_splits)
  from PopulateSample_next_underflow [OF this] False show ?thesis by auto
next
  case True
  obtain status pFirstBlock where f: "Track_GetFirst t = (status, pFirstBlock)"
    by (cases "Track_GetFirst t")
  show ?thesis
  proof (cases "status = E_BUFFER_NOT_FULL")
    case True
    with assms \<open>m_pCurr s = None\<close> f show ?thesis
      by (auto simp: PopulateSample_def status_defs Let_def split: option.splits if_splits)
  next
    case False
    let ?s2 = "s\<lparr>m_pCurr := pFirstBlock, m_pBase := Segment_GetFirst (m_pSegment t)\<rparr>"
    from assms \<open>m_pCurr s = None\<close> f False
    have "PopulateSample_next t d (the pSample) ?s2 = Inr (VFW_E_BUFFER_UNDERFLOW, s')"
      by (auto simp: PopulateSample_def status_defs Let_def split: option.splits if_splits)
    from PopulateSample_next_underflow [OF this] \<open>m_pCurr s = None\<close> f False
    show ?thesis by auto
  qed
qed

theorem underflow_keeps_position_witness:
  "PopulateSample ex_loading_track ex_sink (Some (MediaSample 0))
     \<lparr>m_bDiscontinuity = True, m_pCurr = Some (BlockEntry 0),
       m_pStop = Some (BlockEntry 99), m_pBase = Some (Cluster 0)\<rparr> =
     Inr (VFW_E_BUFFER_UNDERFLOW,
          \<lparr>m_bDiscontinuity = True, m_pCurr = Some (BlockEntry 0),
            m_pStop = Some (BlockEntry 99), m_pBase = Some (Cluster 0)\<rparr>) \<and>
   m_pStop \<lparr>m_bDiscontinuity = True, m_pCurr = Some (BlockEntry 0),
            m_pStop = Some (BlockEntry 99), m_pBase = Some (Cluster 0)\<rparr> =
     Some (BlockEntry 99)"
proof -
  let ?s = "\<lparr>m_bDiscontinuity = True, m_pCurr = Some (BlockEntry 0),
             m_pStop = Some (BlockEntry 99), m_pBase = Some (Cluster 0)\<rparr>"
  have h: "PopulateSample ex_loading_track ex_sink (Some (MediaSample 0)) ?s =
      Inr (VFW_E_BUFFER_UNDERFLOW, ?s)"
    by (simp add: PopulateSample_def PopulateSample_next_def ex_loading_track_def ex_defs)
  from underflow_keeps_position [OF h] h show ?thesis by simp
qed

text \<open>
  A file being loaded, right after \<open>Init\<close>: the first block is there, the next one is
  not. The call returns the underflow with \<^verbatim>\<open>m_pCurr\<close> and \<^verbatim>\<open>m_pBase\<close> no longer null.
\<close>

theorem underflow_after_lazy_init_counterexample:
  "PopulateSample ex_loading_track ex_sink (Some (MediaSample 0))
     \<lparr>m_bDiscontinuity = True, m_pCurr = None,
       m_pStop = Some (BlockEntry 99), m_pBase = None\<rparr> =
     Inr (VFW_E_BUFFER_UNDERFLOW,
          \<lparr>m_bDiscontinuity = True, m_pCurr = Some (BlockEntry 0),
            m_pStop = Some (BlockEntry 99), m_pBase = Some (Cluster 0)\<rparr>) \<and>
   \<lparr>m_bDiscontinuity = True, m_pCurr = Some (BlockEntry 0),
     m_pStop = Some (BlockEntry 99), m_pBase = Some (Cluster 0)\<rparr> \<noteq>
   \<lparr>m_bDiscontinuity = True, m_pCurr = None,
     m_pStop = Some (BlockEntry 99), m_pBase = None\<rparr>"
  by (simp add: PopulateSample_def PopulateSample_next_def ex_loading_track_def ex_defs
      E_BUFFER_NOT_FULL_def Let_def word_sle_eq)

lemma SkippedSample_distinct:
  "SkippedSample \<noteq> S_OK \<and> SkippedSample \<noteq> S_FALSE \<and> SkippedSample \<noteq> E_INVALIDARG \<and>
   SkippedSample \<noteq> VFW_E_BUFFER_UNDERFLOW"
  by (simp add: status_defs)

lemma PopulateSample_next_skips:
  assumes "m_pCurr s = Some c"
      and "\<not> (if m_pStop s = None then BlockEntry_EOS (m_pSegment t) c
              else m_pCurr s = m_pStop s)"
      and "Track_GetNext t c = (status, Some pNext)"
      and "status \<noteq> E_BUFFER_NOT_FULL" and "0 \<le>s status"
      and "SUCCEEDED (OnPopulateSample d s (Some pNext) smp)"
      and "OnPopulateSample d s (Some pNext) smp \<noteq> S_OK"
  shows "PopulateSample_next t d smp s = Inr (SkippedSample, s\<lparr>m_pCurr := Some pNext\<rparr>)"
  using assms unfolding PopulateSample_next_def Let_def by simp

lemma PopulateSample_positioned:
  "m_pCurr s \<noteq> None \<Longrightarrow> \<not> SendPreroll d s smp \<Longrightarrow>
     PopulateSample t d (Some smp) s = PopulateSample_next t d smp s"
  by (auto simp: PopulateSample_def)

lemma PopulateSample_clears_only_on_S_OK:
  assumes "PopulateSample t d pSample s = Inr (hr, s')"
      and "m_bDiscontinuity s' \<noteq> m_bDiscontinuity s"
  shows "hr = S_OK \<and> \<not> m_bDiscontinuity s' \<and>
         (\<exists>smp s1 pNext. pSample = Some smp \<and> OnPopulateSample d s1 pNext smp = S_OK \<and>
            s' = s1\<lparr>m_pCurr := pNext, m_bDiscontinuity := False\<rparr>)"
proof -
  from assms have ok: "hr = S_OK" using PopulateSample_discontinuity by blast
  from assms obtain smp where smp: "pSample = Some smp"
    by (cases pSample) (auto simp: PopulateSample_def)
  from assms smp have np: "\<not> SendPreroll d s smp"
    by (auto simp: PopulateSample_def)
  from PopulateSample_delivers [OF assms(1) [unfolded ok smp] np] ok smp
  show ?thesis by auto
qed

lemma PopulateSample_lazy_init:
  assumes "m_pCurr s = None" and "\<not> SendPreroll d s smp"
      and "Track_GetFirst t = (status0, Some c)"
      and "status0 \<noteq> E_BUFFER_NOT_FULL" and "0 \<le>s status0"
      and "Segment_GetFirst (m_pSegment t) = Some pFirst"
  shows "PopulateSample t d (Some smp) s =
           PopulateSample_next t d smp (s\<lparr>m_pCurr := Some c, m_pBase := Some pFirst\<rparr>)"
  using assms by (simp add: PopulateSample_def Let_def)

text \<open>
  C8. When the next block has been fetched and the sink answers with a success code other
  than \<^verbatim>\<open>S_OK\<close>, the call makes that block \<^verbatim>\<open>m_pCurr\<close>, returns 2, which is none of the other
  statuses, and leaves the discontinuity flag as it was; this holds for a stream that was
  positioned and for one that the call has just initialised. A call that changes the flag
  has cleared it, has returned \<^verbatim>\<open>S_OK\<close>, and its sink has answered \<^verbatim>\<open>S_OK\<close>.
\<close>

theorem sink_rejection_skips:
  "(m_pCurr s = Some c \<longrightarrow> \<not> SendPreroll d s smp \<longrightarrow>
      \<not> (if m_pStop s = None then BlockEntry_EOS (m_pSegment t) c
         else m_pCurr s = m_pStop s) \<longrightarrow>
      Track_GetNext t c = (status, Some pNext) \<longrightarrow>
      status \<noteq> E_BUFFER_NOT_FULL \<longrightarrow> 0 \<le>s status \<longrightarrow>
      SUCCEEDED (OnPopulateSample d s (Some pNext) smp) \<longrightarrow>
      OnPopulateSample d s (Some pNext) smp \<noteq> S_OK \<longrightarrow>
      PopulateSample t d (Some smp) s = Inr (SkippedSample, s\<lparr>m_pCurr := Some pNext\<rparr>)) \<and>
   (m_pCurr s = None \<longrightarrow> \<not> SendPreroll d s smp \<longrightarrow>
      Track_GetFirst t = (status0, Some c) \<longrightarrow>
      status0 \<noteq> E_BUFFER_NOT_FULL \<longrightarrow> 0 \<le>s status0 \<longrightarrow>
      Segment_GetFirst (m_pSegment t) = Some pFirst \<longrightarrow>
      \<not> (if m_pStop s = None then BlockEntry_EOS (m_pSegment t) c
         else Some c = m_pStop s) \<longrightarrow>
      Track_GetNext t c = (status, Some pNext) \<longrightarrow>
      status \<noteq> E_BUFFER_NOT_FULL \<longrightarrow> 0 \<le>s status \<longrightarrow>
      SUCCEEDED (OnPopulateSample d (s\<lparr>m_pCurr := Some c, m_pBase := Some pFirst\<rparr>)
                   (Some pNext) smp) \<longrightarrow>
      OnPopulateSample d (s\<lparr>m_pCurr := Some c, m_pBase := Some pFirst\<rparr>)
        (Some pNext) smp \<noteq> S_OK \<longrightarrow>
      PopulateSample t d (Some smp) s =
        Inr (SkippedSample, s\<lparr>m_pCurr := Some pNext, m_pBase := Some pFirst\<rparr>)) \<and>
   (PopulateSample t d pSample s = Inr (hr, s') \<longrightarrow>
      m_bDiscontinuity s' \<noteq> m_bDiscontinuity s \<longrightarrow>
      hr = S_OK \<and> \<not> m_bDiscontinuity s' \<and>
      (\<exists>smp s1 pNext. pSample = Some smp \<and> OnPopulateSample d s1 pNext smp = S_OK \<and>
         s' = s1\<lparr>m_pCurr := pNext, m_bDiscontinuity := False\<rparr>)) \<and>
   SkippedSample \<noteq> S_OK \<and> SkippedSample \<noteq> S_FALSE \<and> SkippedSample \<noteq> E_INVALIDARG \<and>
   SkippedSample \<noteq> VFW_E_BUFFER_UNDERFLOW"
proof (intro conjI impI)
  assume "m_pCurr s = Some c" "\<not> SendPreroll d s smp"
    "\<not> (if m_pStop s = None then BlockEntry_EOS (m_pSegment t) c
        else m_pCurr s = m_pStop s)"
    "Track_GetNext t c = (status, Some pNext)" "status \<noteq> E_BUFFER_NOT_FULL" "0 \<le>s status"
    "SUCCEEDED (OnPopulateSample d s (Some pNext) smp)"
    "OnPopulateSample d s (Some pNext) smp \<noteq> S_OK"
  then show "PopulateSample t d (Some smp) s =
      Inr (SkippedSample, s\<lparr>m_pCurr := Some pNext\<rparr>)"
    by (simp add: PopulateSample_positioned PopulateSample_next_skips)
next
  let ?s2 = "s\<lparr>m_pCurr := Some c, m_pBase := Some pFirst\<rparr>"
  assume i: "m_pCurr s = None" "\<not> SendPreroll d s smp"
    "Track_GetFirst t = (status0, Some c)" "status0 \<noteq> E_BUFFER_NOT_FULL" "0 \<le>s status0"
    "Segment_GetFirst (m_pSegment t) = Some pFirst"
    and n: "\<not> (if m_pStop s = None then BlockEntry_EOS (m_pSegment t) c
        else Some c = m_pStop s)"
    "Track_GetNext t c = (status, Some pNext)" "status \<noteq> E_BUFFER_NOT_FULL" "0 \<le>s status"
    "SUCCEEDED (OnPopulateSample d ?s2 (Some pNext) smp)"
    "OnPopulateSample d ?s2 (Some pNext) smp \<noteq> S_OK"
  have "PopulateSample_next t d smp ?s2 = Inr (SkippedSample, ?s2\<lparr>m_pCurr := Some pNext\<rparr>)"
    using n by (intro PopulateSample_next_skips [where c = c and status = status])
      (auto split: if_splits)
  with PopulateSample_lazy_init [OF i]
  show "PopulateSample t d (Some smp) s =
      Inr (SkippedSample, s\<lparr>m_pCurr := Some pNext, m_pBase := Some pFirst\<rparr>)"
    by simp
next
  assume "PopulateSample t d pSample s = Inr (hr, s')"
    "m_bDiscontinuity s' \<noteq> m_bDiscontinuity s"
  from PopulateSample_clears_only_on_S_OK [OF this]
  show "hr = S_OK" "\<not> m_bDiscontinuity s'"
    "\<exists>smp s1 pNext. pSample = Some smp \<and> OnPopulateSample d s1 pNext smp = S_OK \<and>
         s' = s1\<lparr>m_pCurr := pNext, m_bDiscontinuity := False\<rparr>"
    by simp_all
qed (simp_all add: SkippedSample_distinct)

theorem sink_rejection_skips_witness:
  "PopulateSample ex_track ex_rejecting_sink (Some (MediaSample 0))
     \<lparr>m_bDiscontinuity = True, m_pCurr = Some (BlockEntry 0),
       m_pStop = Some (BlockEntry 99), m_pBase = Some (Cluster 0)\<rparr> =
     Inr (SkippedSample,
          \<lparr>m_bDiscontinuity = True, m_pCurr = Some (BlockEntry 1),
            m_pStop = Some (BlockEntry 99), m_pBase = Some (Cluster 0)\<rparr>) \<and>
   PopulateSample ex_track ex_sink (Some (MediaSample 0))
     \<lparr>m_bDiscontinuity = True, m_pCurr = Some (BlockEntry 0),
       m_pStop = Some (BlockEntry 99), m_pBase = Some (Cluster 0)\<rparr> =
     Inr (S_OK,
          \<lparr>m_bDiscontinuity = False, m_pCurr = Some (BlockEntry 1),
            m_pStop = Some (BlockEntry 99), m_pBase = Some (Cluster 0)\<rparr>)"
proof -
  let ?s = "\<lparr>m_bDiscontinuity = True, m_pCurr = Some (BlockEntry 0),
             m_pStop = Some (BlockEntry 99), m_pBase = Some (Cluster 0)\<rparr>"
  let ?s' = "\<lparr>m_bDiscontinuity = False, m_pCurr = Some (BlockEntry 1),
             m_pStop = Some (BlockEntry 99), m_pBase = Some (Cluster 0)\<rparr>"
  have c: "m_pCurr ?s = Some (BlockEntry 0)" by simp
  have p: "\<not> SendPreroll ex_rejecting_sink ?s (MediaSample 0)"
    by (simp add: ex_rejecting_sink_def ex_defs)
  have e: "\<not> (if m_pStop ?s = None then BlockEntry_EOS (m_pSegment ex_track) (BlockEntry 0)
              else m_pCurr ?s = m_pStop ?s)" by simp
  have n: "Track_GetNext ex_track (BlockEntry 0) = (0, Some (BlockEntry 1))"
    by (simp add: ex_defs)
  have st: "(0 :: long) \<noteq> E_BUFFER_NOT_FULL" "(0 :: long) \<le>s 0"
    by (simp_all add: E_BUFFER_NOT_FULL_def)
  have hr: "SUCCEEDED (OnPopulateSample ex_rejecting_sink ?s (Some (BlockEntry 1)) (MediaSample 0))"
    "OnPopulateSample ex_rejecting_sink ?s (Some (BlockEntry 1)) (MediaSample 0) \<noteq> S_OK"
    by (simp_all add: ex_rejecting_sink_def ex_defs SUCCEEDED_def status_defs word_sle_eq)
  have d: "PopulateSample ex_track ex_sink (Some (MediaSample 0)) ?s = Inr (S_OK, ?s')"
    by (simp add: PopulateSample_def PopulateSample_next_def ex_defs status_defs
        E_BUFFER_NOT_FULL_def SUCCEEDED_def Let_def word_sle_eq)
  have f: "m_bDiscontinuity ?s' \<noteq> m_bDiscontinuity ?s" by simp
  from sink_rejection_skips [of ?s "BlockEntry 0" ex_rejecting_sink "MediaSample 0" ex_track
      0 "BlockEntry 1"]
    sink_rejection_skips [of ?s _ ex_sink _ ex_track _ _ _ _ "Some (MediaSample 0)" S_OK ?s']
    c p e n st hr d f
  show ?thesis by simp
qed

section \<open>SetStopPosition\<close>

lemma SetStopPosition_switch:
  assumes "Segment_GetCount (m_pSegment t) \<noteq> 0"
      and "\<not> (case m_pCurr s of None \<Rightarrow> False | Some c \<Rightarrow> BlockEntry_EOS (m_pSegment t) c)"
      and "SetStopPosition_curr t s = Inr (tCurr_ns, pCurrCluster)"
      and "dwStop AND AM_SEEKING_PositioningBitsMask \<noteq> AM_SEEKING_NoPositioning"
  shows "SetStopPosition t stoppos_reftime dwStop s =
           (case SetStopPosition_target t stoppos_reftime
                   (dwStop AND AM_SEEKING_PositioningBitsMask) tCurr_ns s of
              Fault f \<Rightarrow> Inl f
            | Return s' \<Rightarrow> Inr s'
            | Target tStop_ns \<Rightarrow> SetStopPosition_resolve t tCurr_ns pCurrCluster tStop_ns s)"
  using assms unfolding SetStopPosition_def Let_def
  by (auto split: option.splits)

lemma SetStopPosition_target_mode:
  "SetStopPosition_target t stoppos_reftime dwStopPos tCurr_ns s = Target tStop_ns \<Longrightarrow>
     dwStopPos \<noteq> AM_SEEKING_NoPositioning"
  by (auto simp: SetStopPosition_target_def mode_defs Let_def)

lemma SetStopPosition_curr_time:
  assumes "SetStopPosition_curr t s = Inr (tCurr_ns, pCurrCluster)"
  shows "(m_pCurr s = None \<longrightarrow> tCurr_ns = 0) \<and>
         (\<forall>c. m_pCurr s = Some c \<longrightarrow> entry_time (m_pSegment t) False c = Inr tCurr_ns) \<and>
         (if m_pBase s \<noteq> None then m_pBase s else Segment_GetFirst (m_pSegment t)) =
           Some pCurrCluster \<and>
         0 \<le>s Segment_GetDuration (m_pSegment t)"
  using assms unfolding SetStopPosition_curr_def Let_def
  by (auto split: option.splits sum.splits if_splits)

text \<open>
  C4. Where the function reaches its \<^verbatim>\<open>switch\<close>, the absolute mode takes the offset as it
  is for \<^verbatim>\<open>tStop_ns\<close>; the relative mode adds the offset times 100 to the duration, or to the
  time of the previous stop, and the incremental mode adds it to \<^verbatim>\<open>tCurr_ns\<close>. The rest of
  the function runs on that value.
\<close>

theorem stop_target_units:
  assumes "Segment_GetCount (m_pSegment t) \<noteq> 0"
      and "\<not> (case m_pCurr s of None \<Rightarrow> False | Some c \<Rightarrow> BlockEntry_EOS (m_pSegment t) c)"
      and "SetStopPosition_curr t s = Inr (tCurr_ns, pCurrCluster)"
  shows "SetStopPosition_target t stoppos_reftime AM_SEEKING_AbsolutePositioning tCurr_ns s =
           Target stoppos_reftime \<and>
         (dwStop AND AM_SEEKING_PositioningBitsMask = AM_SEEKING_AbsolutePositioning \<longrightarrow>
            SetStopPosition t stoppos_reftime dwStop s =
              SetStopPosition_resolve t tCurr_ns pCurrCluster stoppos_reftime s) \<and>
         (dwStop AND AM_SEEKING_PositioningBitsMask = AM_SEEKING_RelativePositioning \<longrightarrow>
            (m_pStop s = None \<or> (\<exists>e. m_pStop s = Some e \<and> BlockEntry_EOS (m_pSegment t) e)) \<longrightarrow>
            SetStopPosition t stoppos_reftime dwStop s =
              SetStopPosition_resolve t tCurr_ns pCurrCluster
                (Segment_GetDuration (m_pSegment t) + stoppos_reftime * 100) s) \<and>
         (dwStop AND AM_SEEKING_PositioningBitsMask = AM_SEEKING_RelativePositioning \<longrightarrow>
            m_pStop s = Some e \<longrightarrow> \<not> BlockEntry_EOS (m_pSegment t) e \<longrightarrow>
            entry_time (m_pSegment t) True e = Inr tPrev_ns \<longrightarrow>
            SetStopPosition t stoppos_reftime dwStop s =
              SetStopPosition_resolve t tCurr_ns pCurrCluster
                (tPrev_ns + stoppos_reftime * 100) s) \<and>
         (dwStop AND AM_SEEKING_PositioningBitsMask = AM_SEEKING_IncrementalPositioning \<longrightarrow>
            0 <s stoppos_reftime \<longrightarrow>
            SetStopPosition t stoppos_reftime dwStop s =
              SetStopPosition_resolve t tCurr_ns pCurrCluster
                (tCurr_ns + stoppos_reftime * 100) s)"
proof (intro conjI impI)
  show "SetStopPosition_target t stoppos_reftime AM_SEEKING_AbsolutePositioning tCurr_ns s =
           Target stoppos_reftime"
    by (simp add: SetStopPosition_target_def)
next
  assume m: "dwStop AND AM_SEEKING_PositioningBitsMask = AM_SEEKING_AbsolutePositioning"
  then have "dwStop AND AM_SEEKING_PositioningBitsMask \<noteq> AM_SEEKING_NoPositioning"
    by (simp add: mode_defs)
  from SetStopPosition_switch [OF assms this] m
  show "SetStopPosition t stoppos_reftime dwStop s =
          SetStopPosition_resolve t tCurr_ns pCurrCluster stoppos_reftime s"
    by (simp add: SetStopPosition_target_def)
next
  assume m: "dwStop AND AM_SEEKING_PositioningBitsMask = AM_SEEKING_RelativePositioning"
    and e: "m_pStop s = None \<or> (\<exists>e. m_pStop s = Some e \<and> BlockEntry_EOS (m_pSegment t) e)"
  from m have "dwStop AND AM_SEEKING_PositioningBitsMask \<noteq> AM_SEEKING_NoPositioning"
    by (simp add: mode_defs)
  from SetStopPosition_switch [OF assms this] m e
  show "SetStopPosition t stoppos_reftime dwStop s =
          SetStopPosition_resolve t tCurr_ns pCurrCluster
            (Segment_GetDuration (m_pSegment t) + stoppos_reftime * 100) s"
    by (auto simp: SetStopPosition_target_def mode_defs Let_def)
next
  assume m: "dwStop AND AM_SEEKING_PositioningBitsMask = AM_SEEKING_RelativePositioning"
    and e: "m_pStop s = Some e" "\<not> BlockEntry_EOS (m_pSegment t) e"
      "entry_time (m_pSegment t) True e = Inr tPrev_ns"
  from m have "dwStop AND AM_SEEKING_PositioningBitsMask \<noteq> AM_SEEKING_NoPositioning"
    by (simp add: mode_defs)
  from SetStopPosition_switch [OF assms this] m e
  show "SetStopPosition t stoppos_reftime dwStop s =
          SetStopPosition_resolve t tCurr_ns pCurrCluster (tPrev_ns + stoppos_reftime * 100) s"
    by (simp add: SetStopPosition_target_def mode_defs Let_def)
next
  assume m: "dwStop AND AM_SEEKING_PositioningBitsMask = AM_SEEKING_IncrementalPositioning"
    and p: "0 <s stoppos_reftime"
  from m have "dwStop AND AM_SEEKING_PositioningBitsMask \<noteq> AM_SEEKING_NoPositioning"
    by (simp add: mode_defs)
  moreover from p have "\<not> stoppos_reftime \<le>s 0" by (simp add: signed.not_le)
  ultimately show "SetStopPosition t stoppos_reftime dwStop s =
          SetStopPosition_resolve t tCurr_ns pCurrCluster (tCurr_ns + stoppos_reftime * 100) s"
    using SetStopPosition_switch [OF assms, of dwStop stoppos_reftime] m
    by (simp add: SetStopPosition_target_def mode_defs Let_def)
qed

theorem stop_target_units_witness:
  "Segment_GetCount (m_pSegment ex_track) \<noteq> 0 \<and>
   \<not> (case m_pCurr ex_positioned of None \<Rightarrow> False
       | Some c \<Rightarrow> BlockEntry_EOS (m_pSegment ex_track) c) \<and>
   SetStopPosition_curr ex_track ex_positioned = Inr (1000000000, Cluster 1) \<and>
   SetStopPosition ex_track 30000000 AM_SEEKING_AbsolutePositioning ex_positioned =
     Inr (ex_positioned\<lparr>m_pStop := Some (BlockEntry 1)\<rparr>) \<and>
   SetStopPosition ex_track (- 20000000) AM_SEEKING_RelativePositioning ex_positioned =
     Inr (ex_positioned\<lparr>m_pStop := Some (BlockEntry 3)\<rparr>) \<and>
   SetStopPosition ex_track 20000000 AM_SEEKING_IncrementalPositioning ex_positioned =
     Inr (ex_positioned\<lparr>m_pStop := Some (BlockEntry 3)\<rparr>)"
proof -
  note g = ex_positioned_guards
  from stop_target_units [OF g, of 30000000 AM_SEEKING_AbsolutePositioning]
    stop_target_units [OF g, of "- 20000000" AM_SEEKING_RelativePositioning "BlockEntry 99"]
    stop_target_units [OF g, of 20000000 AM_SEEKING_IncrementalPositioning] g
  show ?thesis by (simp add: resolve_eval)
qed

text \<open>
  C5. Once the \<^verbatim>\<open>switch\<close> has left \<^verbatim>\<open>tStop_ns\<close>, where \<^verbatim>\<open>tCurr_ns\<close> is 0 for a null \<^verbatim>\<open>m_pCurr\<close>
  and the time of the current block otherwise: a \<^verbatim>\<open>tStop_ns\<close> at or before \<^verbatim>\<open>tCurr_ns\<close> makes
  \<^verbatim>\<open>m_pStop\<close> the current entry, and otherwise a \<^verbatim>\<open>tStop_ns\<close> at or beyond the duration makes
  it the track's end-of-stream entry; the call returns there.
\<close>

theorem stop_clamp:
  assumes "Segment_GetCount (m_pSegment t) \<noteq> 0"
      and "\<not> (case m_pCurr s of None \<Rightarrow> False | Some c \<Rightarrow> BlockEntry_EOS (m_pSegment t) c)"
      and "SetStopPosition_curr t s = Inr (tCurr_ns, pCurrCluster)"
      and "SetStopPosition_target t stoppos_reftime
             (dwStop AND AM_SEEKING_PositioningBitsMask) tCurr_ns s = Target tStop_ns"
  shows "(m_pCurr s = None \<longrightarrow> tCurr_ns = 0) \<and>
         (\<forall>c. m_pCurr s = Some c \<longrightarrow> entry_time (m_pSegment t) False c = Inr tCurr_ns) \<and>
         (tStop_ns \<le>s tCurr_ns \<longrightarrow>
            SetStopPosition t stoppos_reftime dwStop s = Inr (s\<lparr>m_pStop := m_pCurr s\<rparr>)) \<and>
         (\<not> tStop_ns \<le>s tCurr_ns \<longrightarrow> Segment_GetDuration (m_pSegment t) \<le>s tStop_ns \<longrightarrow>
            SetStopPosition t stoppos_reftime dwStop s =
              Inr (s\<lparr>m_pStop := Some (Track_GetEOS t)\<rparr>))"
proof -
  from assms(4) have "dwStop AND AM_SEEKING_PositioningBitsMask \<noteq> AM_SEEKING_NoPositioning"
    by (rule SetStopPosition_target_mode)
  from SetStopPosition_switch [OF assms(1-3) this, of stoppos_reftime] assms(4)
  have "SetStopPosition t stoppos_reftime dwStop s =
          SetStopPosition_resolve t tCurr_ns pCurrCluster tStop_ns s"
    by simp
  with SetStopPosition_curr_time [OF assms(3)] show ?thesis
    by (simp add: SetStopPosition_resolve_def Let_def)
qed

theorem stop_clamp_witness:
  "Segment_GetCount (m_pSegment ex_track) \<noteq> 0 \<and>
   \<not> (case m_pCurr ex_positioned of None \<Rightarrow> False
       | Some c \<Rightarrow> BlockEntry_EOS (m_pSegment ex_track) c) \<and>
   SetStopPosition_curr ex_track ex_positioned = Inr (1000000000, Cluster 1) \<and>
   SetStopPosition_target ex_track 30000000
     (AM_SEEKING_AbsolutePositioning AND AM_SEEKING_PositioningBitsMask) 1000000000
     ex_positioned = Target 30000000 \<and>
   (30000000 :: int64) \<le>s 1000000000 \<and>
   SetStopPosition ex_track 30000000 AM_SEEKING_AbsolutePositioning ex_positioned =
     Inr (ex_positioned\<lparr>m_pStop := m_pCurr ex_positioned\<rparr>) \<and>
   SetStopPosition_target ex_track 50000000
     (AM_SEEKING_IncrementalPositioning AND AM_SEEKING_PositioningBitsMask) 1000000000
     ex_positioned = Target 6000000000 \<and>
   \<not> (6000000000 :: int64) \<le>s 1000000000 \<and>
   Segment_GetDuration (m_pSegment ex_track) \<le>s 6000000000 \<and>
   SetStopPosition ex_track 50000000 AM_SEEKING_IncrementalPositioning ex_positioned =
     Inr (ex_positioned\<lparr>m_pStop := Some (Track_GetEOS ex_track)\<rparr>)"
proof -
  note g = ex_positioned_guards
  have a: "SetStopPosition_target ex_track 30000000
     (AM_SEEKING_AbsolutePositioning AND AM_SEEKING_PositioningBitsMask) 1000000000
     ex_positioned = Target 30000000"
    and i: "SetStopPosition_target ex_track 50000000
     (AM_SEEKING_IncrementalPositioning AND AM_SEEKING_PositioningBitsMask) 1000000000
     ex_positioned = Target 6000000000"
    by (simp_all add: SetStopPosition_target_def mode_defs Let_def word_sle_eq)
  have c: "(30000000 :: int64) \<le>s 1000000000" "\<not> (6000000000 :: int64) \<le>s 1000000000"
    "Segment_GetDuration (m_pSegment ex_track) \<le>s 6000000000"
    by (simp_all add: ex_defs word_sle_eq)
  from stop_clamp [OF g a] stop_clamp [OF g i] g a i c show ?thesis by simp
qed





lemma SetStopPosition_curr_lookup_free:
  assumes "SetStopPosition_curr t s = Inr r" and "0 \<le>s d"
  shows "SetStopPosition_curr
           (t\<lparr>m_pSegment := (m_pSegment t)\<lparr>Segment_GetDuration := d,
              Segment_FindCluster := fc, Segment_GetNext := gn, Cluster_GetEntry := ge\<rparr>\<rparr>) s =
         Inr r"
  using assms unfolding SetStopPosition_curr_def entry_time_def Let_def
  by (auto split: option.splits sum.splits if_splits)

lemma incremental_early_return:
  assumes "Segment_GetCount (m_pSegment t) \<noteq> 0"
      and "\<not> (case m_pCurr s of None \<Rightarrow> False | Some c \<Rightarrow> BlockEntry_EOS (m_pSegment t) c)"
      and "SetStopPosition_curr t s = Inr (tCurr_ns, pCurrCluster)"
      and "dwStop AND AM_SEEKING_PositioningBitsMask = AM_SEEKING_IncrementalPositioning"
      and "stoppos_reftime \<le>s 0"
  shows "SetStopPosition_target t stoppos_reftime
           (dwStop AND AM_SEEKING_PositioningBitsMask) tCurr_ns s =
           Return (s\<lparr>m_pStop := m_pCurr s\<rparr>)"
    and "SetStopPosition t stoppos_reftime dwStop s = Inr (s\<lparr>m_pStop := m_pCurr s\<rparr>)"
proof -
  from assms(4) have "dwStop AND AM_SEEKING_PositioningBitsMask \<noteq> AM_SEEKING_NoPositioning"
    by (simp add: mode_defs)
  note sw = SetStopPosition_switch [OF assms(1-3) this, of stoppos_reftime]
  show r: "SetStopPosition_target t stoppos_reftime
      (dwStop AND AM_SEEKING_PositioningBitsMask) tCurr_ns s =
      Return (s\<lparr>m_pStop := m_pCurr s\<rparr>)"
    using assms(4,5) by (simp add: SetStopPosition_target_def mode_defs)
  show "SetStopPosition t stoppos_reftime dwStop s = Inr (s\<lparr>m_pStop := m_pCurr s\<rparr>)"
    using sw r by simp
qed

text \<open>
  C6. An incremental stop position with an offset of zero or less, where the segment has
  a cluster, \<^verbatim>\<open>m_pCurr\<close> is not at the end of the stream and the statements before the
  \<^verbatim>\<open>switch\<close> pass, makes \<^verbatim>\<open>m_pStop\<close> equal to \<^verbatim>\<open>m_pCurr\<close> and returns from the \<^verbatim>\<open>switch\<close>: no
  \<^verbatim>\<open>tStop_ns\<close> is computed. The result is the same whatever non-negative duration the
  segment has and whatever \<^verbatim>\<open>FindCluster\<close>, \<^verbatim>\<open>GetNext\<close> and \<^verbatim>\<open>GetEntry\<close> would answer. An offset
  of 0 gives a stop equal to the current entry.
\<close>

theorem incremental_nonpositive_offset:
  assumes "Segment_GetCount (m_pSegment t) \<noteq> 0"
      and "\<not> (case m_pCurr s of None \<Rightarrow> False | Some c \<Rightarrow> BlockEntry_EOS (m_pSegment t) c)"
      and "SetStopPosition_curr t s = Inr (tCurr_ns, pCurrCluster)"
      and "dwStop AND AM_SEEKING_PositioningBitsMask = AM_SEEKING_IncrementalPositioning"
  shows "(stoppos_reftime \<le>s 0 \<longrightarrow>
            SetStopPosition_target t stoppos_reftime
              (dwStop AND AM_SEEKING_PositioningBitsMask) tCurr_ns s =
              Return (s\<lparr>m_pStop := m_pCurr s\<rparr>) \<and>
            SetStopPosition t stoppos_reftime dwStop s = Inr (s\<lparr>m_pStop := m_pCurr s\<rparr>) \<and>
            (0 \<le>s d \<longrightarrow>
               SetStopPosition
                 (t\<lparr>m_pSegment := (m_pSegment t)\<lparr>Segment_GetDuration := d,
                    Segment_FindCluster := fc, Segment_GetNext := gn,
                    Cluster_GetEntry := ge\<rparr>\<rparr>)
                 stoppos_reftime dwStop s = Inr (s\<lparr>m_pStop := m_pCurr s\<rparr>))) \<and>
         (\<exists>s'. SetStopPosition t 0 dwStop s = Inr s' \<and> m_pStop s' = m_pCurr s')"
proof (intro conjI impI)
  assume n: "stoppos_reftime \<le>s 0"
  from incremental_early_return [OF assms n]
  show "SetStopPosition_target t stoppos_reftime
      (dwStop AND AM_SEEKING_PositioningBitsMask) tCurr_ns s =
      Return (s\<lparr>m_pStop := m_pCurr s\<rparr>)"
    and "SetStopPosition t stoppos_reftime dwStop s = Inr (s\<lparr>m_pStop := m_pCurr s\<rparr>)"
    by simp_all
  let ?t = "t\<lparr>m_pSegment := (m_pSegment t)\<lparr>Segment_GetDuration := d,
      Segment_FindCluster := fc, Segment_GetNext := gn, Cluster_GetEntry := ge\<rparr>\<rparr>"
  assume d: "0 \<le>s d"
  have "Segment_GetCount (m_pSegment ?t) \<noteq> 0"
    and "\<not> (case m_pCurr s of None \<Rightarrow> False
           | Some c \<Rightarrow> BlockEntry_EOS (m_pSegment ?t) c)"
    using assms(1,2) by (simp_all split: option.splits)
  from incremental_early_return(2) [OF this
      SetStopPosition_curr_lookup_free [OF assms(3) d] assms(4) n]
  show "SetStopPosition ?t stoppos_reftime dwStop s = Inr (s\<lparr>m_pStop := m_pCurr s\<rparr>)" .
next
  have "(0 :: int64) \<le>s 0" by simp
  from incremental_early_return(2) [OF assms this]
  show "\<exists>s'. SetStopPosition t 0 dwStop s = Inr s' \<and> m_pStop s' = m_pCurr s'" by simp
qed

theorem incremental_nonpositive_offset_witness:
  "Segment_GetCount (m_pSegment ex_track) \<noteq> 0 \<and>
   \<not> (case m_pCurr ex_positioned of None \<Rightarrow> False
       | Some c \<Rightarrow> BlockEntry_EOS (m_pSegment ex_track) c) \<and>
   SetStopPosition_curr ex_track ex_positioned = Inr (1000000000, Cluster 1) \<and>
   AM_SEEKING_IncrementalPositioning AND AM_SEEKING_PositioningBitsMask =
     AM_SEEKING_IncrementalPositioning \<and>
   (- 7 :: int64) \<le>s 0 \<and>
   SetStopPosition ex_track (- 7) AM_SEEKING_IncrementalPositioning ex_positioned =
     Inr (ex_positioned\<lparr>m_pStop := Some (BlockEntry 1)\<rparr>) \<and>
   SetStopPosition ex_track 0 AM_SEEKING_IncrementalPositioning ex_positioned =
     Inr (ex_positioned\<lparr>m_pStop := Some (BlockEntry 1)\<rparr>) \<and>
   (0 :: int64) \<le>s 1 \<and>
   SetStopPosition
     (ex_track\<lparr>m_pSegment := (m_pSegment ex_track)\<lparr>Segment_GetDuration := 1,
        Segment_FindCluster := (\<lambda>ns. None), Segment_GetNext := (\<lambda>c. None),
        Cluster_GetEntry := (\<lambda>c. None)\<rparr>\<rparr>)
     (- 7) AM_SEEKING_IncrementalPositioning ex_positioned =
     Inr (ex_positioned\<lparr>m_pStop := Some (BlockEntry 1)\<rparr>)"
proof -
  note g = ex_positioned_guards
  have m: "AM_SEEKING_IncrementalPositioning AND AM_SEEKING_PositioningBitsMask =
     AM_SEEKING_IncrementalPositioning" by (simp add: mode_defs)
  have n: "(- 7 :: int64) \<le>s 0" "(0 :: int64) \<le>s 0" "(0 :: int64) \<le>s 1"
    by (simp_all add: word_sle_eq)
  have c: "m_pCurr ex_positioned = Some (BlockEntry 1)" by (simp add: ex_positioned_def)
  from incremental_nonpositive_offset [OF g m, of "- 7" 1 "\<lambda>ns. None" "\<lambda>c. None" "\<lambda>c. None"]
    incremental_nonpositive_offset [OF g m, of 0] g m n c
  show ?thesis by simp
qed

end
